theory Spec2Isabelle
  imports Complex_Main
begin

section \<open>Text\<close>

text \<open>
  JavaScript strings are represented by their UTF-8 bytes (\<^typ>\<open>string\<close> is a list of 8-bit
  characters). The string operations the sources use (\<open>startsWith\<close>, \<open>slice\<close>, \<open>split\<close>,
  \<open>includes\<close> with ASCII arguments, \<open>trim\<close>, template literals) act on that representation
  as they act on the string itself.
\<close>

definition startsWith :: "string \<Rightarrow> string \<Rightarrow> bool" where
  "startsWith s p \<longleftrightarrow> take (length p) s = p"

definition slice :: "string \<Rightarrow> nat \<Rightarrow> string" where
  "slice s n = drop n s"

fun js_includes :: "string \<Rightarrow> string \<Rightarrow> bool" where
  "js_includes [] p = (p = [])"
| "js_includes (c # cs) p = (startsWith (c # cs) p \<or> js_includes cs p)"

text \<open>\<open>s.split(sep)\<close> for a one-character separator: the pieces between the separators,
  so a text that ends with the separator has an empty last piece, and the empty text has one
  empty piece.\<close>

fun js_split :: "char \<Rightarrow> string \<Rightarrow> string list" where
  "js_split sep [] = [[]]"
| "js_split sep (c # cs) =
     (if c = sep then [] # js_split sep cs
      else (case js_split sep cs of [] \<Rightarrow> [[c]] | l # ls \<Rightarrow> (c # l) # ls))"

text \<open>The decimal digits of a number, as a template literal prints a non-negative integer.\<close>

fun decimal :: "nat \<Rightarrow> string" where
  "decimal n =
     (if n < 10 then [''0123456789'' ! n]
      else decimal (n div 10) @ [''0123456789'' ! (n mod 10)])"

declare decimal.simps [simp del]

definition int_text :: "int \<Rightarrow> string" where
  "int_text i = (if i < 0 then CHR ''-'' # decimal (nat (- i)) else decimal (nat i))"

text \<open>The code points that \<open>trim\<close> removes (ECMAScript WhiteSpace and LineTerminator),
  each as its UTF-8 bytes.\<close>

definition whitespace :: "string list" where
  "whitespace =
     [[CHR 0x09], [CHR 0x0A], [CHR 0x0B], [CHR 0x0C], [CHR 0x0D], [CHR 0x20],
      [CHR 0xC2, CHR 0xA0], [CHR 0xE1, CHR 0x9A, CHR 0x80],
      [CHR 0xE2, CHR 0x80, CHR 0x80], [CHR 0xE2, CHR 0x80, CHR 0x81],
      [CHR 0xE2, CHR 0x80, CHR 0x82], [CHR 0xE2, CHR 0x80, CHR 0x83],
      [CHR 0xE2, CHR 0x80, CHR 0x84], [CHR 0xE2, CHR 0x80, CHR 0x85],
      [CHR 0xE2, CHR 0x80, CHR 0x86], [CHR 0xE2, CHR 0x80, CHR 0x87],
      [CHR 0xE2, CHR 0x80, CHR 0x88], [CHR 0xE2, CHR 0x80, CHR 0x89],
      [CHR 0xE2, CHR 0x80, CHR 0x8A], [CHR 0xE2, CHR 0x80, CHR 0xA8],
      [CHR 0xE2, CHR 0x80, CHR 0xA9], [CHR 0xE2, CHR 0x80, CHR 0xAF],
      [CHR 0xE2, CHR 0x81, CHR 0x9F], [CHR 0xE3, CHR 0x80, CHR 0x80],
      [CHR 0xEF, CHR 0xBB, CHR 0xBF]]"

fun strip :: "string list \<Rightarrow> string \<Rightarrow> string" where
  "strip ws [] = []"
| "strip ws (c # cs) =
     (case find (startsWith (c # cs)) ws of
        None \<Rightarrow> c # cs
      | Some w \<Rightarrow> strip ws (drop (length w - 1) cs))"

definition trimStart :: "string \<Rightarrow> string" where
  "trimStart s = strip whitespace s"

definition trimEnd :: "string \<Rightarrow> string" where
  "trimEnd s = rev (strip (map rev whitespace) (rev s))"

definition trim :: "string \<Rightarrow> string" where
  "trim s = trimEnd (trimStart s)"

section \<open>JSON values\<close>

text \<open>
  The values \<open>JSON.parse\<close> and \<open>response.json()\<close> produce. Numbers are kept exact (a
  rational); the rounding of IEEE doubles is not represented. An object keeps its members in
  source order; reading a property takes the last member of that name, as \<open>JSON.parse\<close> does.
\<close>

datatype json =
    JNull
  | JBool bool
  | JNumber rat
  | JString string
  | JArray "json list"
  | JObject "(string \<times> json) list"

text \<open>\<open>v.name\<close> for a value that is not \<open>null\<close>; \<open>None\<close> is \<open>undefined\<close>.\<close>

fun get_prop :: "json \<Rightarrow> string \<Rightarrow> json option" where
  "get_prop (JObject kvs) name = map_of (rev kvs) name"
| "get_prop _ name = None"

text \<open>ToBoolean, on a value that may be \<open>undefined\<close>.\<close>

fun truthy :: "json option \<Rightarrow> bool" where
  "truthy None = False"
| "truthy (Some JNull) = False"
| "truthy (Some (JBool b)) = b"
| "truthy (Some (JNumber n)) = (n \<noteq> 0)"
| "truthy (Some (JString s)) = (s \<noteq> [])"
| "truthy (Some (JArray _)) = True"
| "truthy (Some (JObject _)) = True"

text \<open>\<open>JSON.stringify\<close> of an object literal: a property whose value is \<open>undefined\<close> is
  left out. The request body is kept as the value that is serialised.\<close>

definition stringify_object :: "(string \<times> json option) list \<Rightarrow> json" where
  "stringify_object kvs =
     JObject (concat (map (\<lambda>(k, v). case v of None \<Rightarrow> [] | Some x \<Rightarrow> [(k, x)]) kvs))"

subsection \<open>The JSON grammar\<close>

text \<open>
  \<open>JSON_parse\<close> reads a text by the JSON grammar (ECMA-404): \<open>None\<close> where \<open>JSON.parse\<close>
  throws a SyntaxError. The results about the stream decoder hold for every parser; this one
  is the parser of the concrete runs.
\<close>

definition json_ws :: "char \<Rightarrow> bool" where
  "json_ws c \<longleftrightarrow> c = CHR 0x20 \<or> c = CHR 0x09 \<or> c = CHR 0x0A \<or> c = CHR 0x0D"

definition skip_ws :: "string \<Rightarrow> string" where
  "skip_ws s = dropWhile json_ws s"

definition is_digit :: "char \<Rightarrow> bool" where
  "is_digit c \<longleftrightarrow> 48 \<le> (of_char c :: nat) \<and> (of_char c :: nat) \<le> 57"

definition digits_val :: "string \<Rightarrow> nat" where
  "digits_val ds = foldl (\<lambda>a c. 10 * a + (of_char c - 48)) 0 ds"

definition parse_frac :: "string \<Rightarrow> (string \<times> string) option" where
  "parse_frac s =
     (case s of
        [] \<Rightarrow> Some ([], s)
      | c # r \<Rightarrow>
          if c = CHR ''.'' then
            (if takeWhile is_digit r = [] then None
             else Some (takeWhile is_digit r, dropWhile is_digit r))
          else Some ([], s))"

definition parse_exp :: "string \<Rightarrow> (int \<times> string) option" where
  "parse_exp s =
     (case s of
        [] \<Rightarrow> Some (0, s)
      | c # r \<Rightarrow>
          if c = CHR ''e'' \<or> c = CHR ''E'' then
            (let (neg, r1) =
                   (case r of
                      [] \<Rightarrow> (False, r)
                    | d # r' \<Rightarrow>
                        if d = CHR ''-'' then (True, r')
                        else if d = CHR ''+'' then (False, r')
                        else (False, r))
             in if takeWhile is_digit r1 = [] then None
                else Some ((if neg then - int (digits_val (takeWhile is_digit r1))
                            else int (digits_val (takeWhile is_digit r1))),
                           dropWhile is_digit r1))
          else Some (0, s))"

definition scale10 :: "rat \<Rightarrow> int \<Rightarrow> rat" where
  "scale10 x e = (if 0 \<le> e then x * 10 ^ nat e else x / 10 ^ nat (- e))"

definition parse_number :: "string \<Rightarrow> (rat \<times> string) option" where
  "parse_number s =
     (let (neg, s1) =
            (case s of
               [] \<Rightarrow> (False, s)
             | c # r \<Rightarrow> if c = CHR ''-'' then (True, r) else (False, s));
          ip = takeWhile is_digit s1
      in if ip = [] \<or> (hd ip = CHR ''0'' \<and> 1 < length ip) then None
         else
           (case parse_frac (dropWhile is_digit s1) of
              None \<Rightarrow> None
            | Some (fd, s3) \<Rightarrow>
                (case parse_exp s3 of
                   None \<Rightarrow> None
                 | Some (e, s4) \<Rightarrow>
                     (let m = scale10 (of_nat (digits_val (ip @ fd))) (e - int (length fd))
                      in Some ((if neg then - m else m), s4)))))"

text \<open>The characters of a string literal: a byte of the text as it stands, or the UTF-16
  code unit of a \<open>\u\<close> escape.\<close>

datatype piece = Raw char | Unit nat

definition hex_val :: "char \<Rightarrow> nat option" where
  "hex_val c =
     (let n = of_char c :: nat in
      if 48 \<le> n \<and> n \<le> 57 then Some (n - 48)
      else if 65 \<le> n \<and> n \<le> 70 then Some (n - 55)
      else if 97 \<le> n \<and> n \<le> 102 then Some (n - 87)
      else None)"

fun hex4 :: "string \<Rightarrow> nat option" where
  "hex4 [a, b, c, d] =
     (case (hex_val a, hex_val b, hex_val c, hex_val d) of
        (Some x, Some y, Some z, Some w) \<Rightarrow> Some (((x * 16 + y) * 16 + z) * 16 + w)
      | _ \<Rightarrow> None)"
| "hex4 _ = None"

definition simple_escape :: "char \<Rightarrow> char option" where
  "simple_escape e =
     (if e = CHR 0x22 then Some (CHR 0x22)
      else if e = CHR 0x5C then Some (CHR 0x5C)
      else if e = CHR ''/'' then Some (CHR ''/'')
      else if e = CHR ''b'' then Some (CHR 0x08)
      else if e = CHR ''f'' then Some (CHR 0x0C)
      else if e = CHR ''n'' then Some (CHR 0x0A)
      else if e = CHR ''r'' then Some (CHR 0x0D)
      else if e = CHR ''t'' then Some (CHR 0x09)
      else None)"

text \<open>The text after an opening quote, up to the closing quote.\<close>

fun string_body :: "string \<Rightarrow> (piece list \<times> string) option" where
  "string_body [] = None"
| "string_body (c # cs) =
    (if c = CHR 0x22 then Some ([], cs)
     else if c = CHR 0x5C then
       (case cs of
          [] \<Rightarrow> None
        | e # r \<Rightarrow>
            if e = CHR ''u'' then
              (case hex4 (take 4 r) of
                 None \<Rightarrow> None
               | Some u \<Rightarrow> map_option (apfst ((#) (Unit u))) (string_body (drop 4 r)))
            else
              (case simple_escape e of
                 None \<Rightarrow> None
               | Some b \<Rightarrow> map_option (apfst ((#) (Raw b))) (string_body r)))
     else if of_char c < (32::nat) then None
     else map_option (apfst ((#) (Raw c))) (string_body cs))"

definition utf8 :: "nat \<Rightarrow> string" where
  "utf8 n =
     (if n < 0x80 then [char_of n]
      else if n < 0x800 then [char_of (0xC0 + n div 64), char_of (0x80 + n mod 64)]
      else if n < 0x10000 then
        [char_of (0xE0 + n div 4096), char_of (0x80 + n div 64 mod 64),
         char_of (0x80 + n mod 64)]
      else
        [char_of (0xF0 + n div 262144), char_of (0x80 + n div 4096 mod 64),
         char_of (0x80 + n div 64 mod 64), char_of (0x80 + n mod 64)])"

text \<open>Two escapes that form a surrogate pair are one code point.\<close>

fun encode :: "piece list \<Rightarrow> string" where
  "encode [] = []"
| "encode (Raw c # ps) = c # encode ps"
| "encode [Unit u] = utf8 u"
| "encode (Unit u # Raw c # ps) = utf8 u @ c # encode ps"
| "encode (Unit u # Unit v # ps) =
     (if 0xD800 \<le> u \<and> u < 0xDC00 \<and> 0xDC00 \<le> v \<and> v < 0xE000
      then utf8 (0x10000 + (u - 0xD800) * 0x400 + (v - 0xDC00)) @ encode ps
      else utf8 u @ encode (Unit v # ps))"

definition parse_string :: "string \<Rightarrow> (string \<times> string) option" where
  "parse_string s = map_option (apfst encode) (string_body s)"

text \<open>Values nest, so the three mutually recursive readers carry a bound on the calls left;
  \<open>JSON_parse\<close> starts them with more than a text of its length can use.\<close>

fun parse_value :: "nat \<Rightarrow> string \<Rightarrow> (json \<times> string) option"
  and parse_elements :: "nat \<Rightarrow> string \<Rightarrow> (json list \<times> string) option"
  and parse_members :: "nat \<Rightarrow> string \<Rightarrow> ((string \<times> json) list \<times> string) option"
where
  "parse_value 0 s = None"
| "parse_value (Suc n) s =
     (case skip_ws s of
        [] \<Rightarrow> None
      | c # cs \<Rightarrow>
          if c = CHR ''{'' then
            (if startsWith (skip_ws cs) ''}'' then Some (JObject [], drop 1 (skip_ws cs))
             else map_option (apfst JObject) (parse_members n cs))
          else if c = CHR ''['' then
            (if startsWith (skip_ws cs) '']'' then Some (JArray [], drop 1 (skip_ws cs))
             else map_option (apfst JArray) (parse_elements n cs))
          else if c = CHR 0x22 then map_option (apfst JString) (parse_string cs)
          else if startsWith (c # cs) ''true'' then Some (JBool True, drop 3 cs)
          else if startsWith (c # cs) ''false'' then Some (JBool False, drop 4 cs)
          else if startsWith (c # cs) ''null'' then Some (JNull, drop 3 cs)
          else map_option (apfst JNumber) (parse_number (c # cs)))"
| "parse_elements 0 s = None"
| "parse_elements (Suc n) s =
     (case parse_value n s of
        None \<Rightarrow> None
      | Some (v, r) \<Rightarrow>
          (case skip_ws r of
             [] \<Rightarrow> None
           | c # r' \<Rightarrow>
               if c = CHR '','' then map_option (apfst ((#) v)) (parse_elements n r')
               else if c = CHR '']'' then Some ([v], r')
               else None))"
| "parse_members 0 s = None"
| "parse_members (Suc n) s =
     (case skip_ws s of
        [] \<Rightarrow> None
      | q # s1 \<Rightarrow>
          if q \<noteq> CHR 0x22 then None
          else
            (case parse_string s1 of
               None \<Rightarrow> None
             | Some (k, s2) \<Rightarrow>
                 (case skip_ws s2 of
                    [] \<Rightarrow> None
                  | c # s3 \<Rightarrow>
                      if c \<noteq> CHR '':'' then None
                      else
                        (case parse_value n s3 of
                           None \<Rightarrow> None
                         | Some (v, s4) \<Rightarrow>
                             (case skip_ws s4 of
                                [] \<Rightarrow> None
                              | d # s5 \<Rightarrow>
                                  if d = CHR '','' then
                                    map_option (apfst ((#) (k, v))) (parse_members n s5)
                                  else if d = CHR ''}'' then Some ([(k, v)], s5)
                                  else None)))))"

definition JSON_parse :: "string \<Rightarrow> json option" where
  "JSON_parse s =
     (case parse_value (2 * length s + 2) s of
        None \<Rightarrow> None
      | Some (v, r) \<Rightarrow> if skip_ws r = [] then Some v else None)"

section \<open>HTTP\<close>

text \<open>
  A request as handed to \<open>fetch\<close> (its \<open>method\<close> is \<open>http_method\<close> here), and what
  \<open>fetch\<close> gives back: the promise rejects with a TypeError (no response was received; the
  message is the browser's) or resolves to a response. \<open>response.ok\<close> is the status lying
  in 200..299.
\<close>

record http_request =
  url :: string
  http_method :: string
  headers :: "(string \<times> string) list"
  body :: "json option"

definition API_BASE_URL :: string where
  "API_BASE_URL = ''http://localhost:8000''"

datatype js_error =
    TypeError string
  | SyntaxError string
  | Error string
  | DocuMentorApiError string nat string

fun message :: "js_error \<Rightarrow> string" where
  "message (TypeError m) = m"
| "message (SyntaxError m) = m"
| "message (Error m) = m"
| "message (DocuMentorApiError m st txt) = m"

datatype 'r fetch_result = Rejects string | Resolves 'r

record response_head =
  status :: nat
  statusText :: string

definition ok :: "'x response_head_scheme \<Rightarrow> bool" where
  "ok r \<longleftrightarrow> 200 \<le> status r \<and> status r \<le> 299"

text \<open>
  A response whose body is read with \<open>response.json()\<close>: \<open>json_any\<close> is what the call yields
  when the result is used untyped (the error body), \<open>json_as\<close> what it yields at the result
  type the caller declares; \<open>Inl\<close> is the promise rejecting.
\<close>

record 'a json_response = response_head +
  json_any :: "js_error + json"
  json_as :: "js_error + 'a"

text \<open>
  A response whose body is read as a stream: the texts of the reads that
  \<open>decoder.decode(value)\<close> returns, in order, and how the reader ends (\<open>done\<close>, or a
  rejected read). \<open>None\<close> is a response without a body. The body is one that ends: on a
  body that never does, \<open>askStream\<close> keeps reading and does not return.
\<close>

datatype stream_end = Done | ReadFails js_error

record stream_response = response_head +
  reads :: "(string list \<times> stream_end) option"

section \<open>The client of services/api.ts\<close>

definition ask_request :: "string \<Rightarrow> string option \<Rightarrow> http_request" where
  "ask_request question sourceFilter =
     \<lparr>url = API_BASE_URL @ ''/ask'', http_method = ''POST'',
      headers = [(''Content-Type'', ''application/json'')],
      body = Some (stringify_object
        [(''question'', Some (JString question)),
         (''source_filter'', map_option JString sourceFilter),
         (''k'', Some (JNumber 5)),
         (''temperature'', Some (JNumber (1 / 10))),
         (''max_tokens'', Some (JNumber 1024))])\<rparr>"

text \<open>\<open>DocuMentorAPI.ask\<close>, from the outcome of its \<open>fetch\<close>: the lines written with
  \<open>console.error\<close>, and the value returned (\<open>Inr\<close>) or the error thrown (\<open>Inl\<close>).\<close>

definition DocuMentorAPI_ask ::
  "'a json_response fetch_result \<Rightarrow> string list \<times> (js_error + 'a)" where
  "DocuMentorAPI_ask outcome =
     (let attempt =
            (case outcome of
               Rejects m \<Rightarrow> Inl (TypeError m)
             | Resolves response \<Rightarrow>
                 if \<not> ok response
                 then Inl (Error (''API error: '' @ decimal (status response)))
                 else json_as response)
      in case attempt of
           Inl error \<Rightarrow> ([''Error calling ask API:''], Inl error)
         | Inr data \<Rightarrow> ([], Inr data))"

subsection \<open>The stream decoder\<close>

text \<open>What \<open>askStream\<close> does that its caller can see: a call of the callback \<open>onChunk\<close> with a
  parsed event, or a report on \<open>console.error\<close>.\<close>

datatype sse_effect = OnChunk json | ConsoleError

text \<open>
  The body of the \<open>for\<close> loop, for one line. \<open>parse\<close> is \<open>JSON.parse\<close> (\<open>None\<close> where it
  throws); \<open>throws\<close> tells whether the callback throws on an event, which the same \<open>catch\<close>
  reports.
\<close>

definition on_line ::
  "(string \<Rightarrow> json option) \<Rightarrow> (json \<Rightarrow> bool) \<Rightarrow> string \<Rightarrow> sse_effect list" where
  "on_line parse throws line =
     (if startsWith line ''data: '' then
        (case parse (slice line 6) of
           None \<Rightarrow> [ConsoleError]
         | Some data \<Rightarrow> if throws data then [OnChunk data, ConsoleError] else [OnChunk data])
      else [])"

fun for_lines ::
  "(string \<Rightarrow> json option) \<Rightarrow> (json \<Rightarrow> bool) \<Rightarrow> string list \<Rightarrow> sse_effect list" where
  "for_lines parse throws [] = []"
| "for_lines parse throws (line # lines) =
     on_line parse throws line @ for_lines parse throws lines"

text \<open>The \<open>while\<close> loop over the reads that arrive before the reader reports \<open>done\<close>.\<close>

fun read_loop ::
  "(string \<Rightarrow> json option) \<Rightarrow> (json \<Rightarrow> bool) \<Rightarrow> string list \<Rightarrow> sse_effect list" where
  "read_loop parse throws [] = []"
| "read_loop parse throws (chunk # rest) =
     for_lines parse throws (js_split (CHR 0x0A) chunk) @ read_loop parse throws rest"

definition askStream_request :: "string \<Rightarrow> string option \<Rightarrow> http_request" where
  "askStream_request question sourceFilter =
     \<lparr>url = API_BASE_URL @ ''/stream-ask'', http_method = ''POST'',
      headers = [(''Content-Type'', ''application/json'')],
      body = Some (stringify_object
        [(''question'', Some (JString question)),
         (''source_filter'', map_option JString sourceFilter),
         (''k'', Some (JNumber 5)),
         (''temperature'', Some (JNumber (1 / 10)))])\<rparr>"

definition askStream ::
  "(string \<Rightarrow> json option) \<Rightarrow> (json \<Rightarrow> bool) \<Rightarrow> stream_response fetch_result
     \<Rightarrow> sse_effect list \<times> (js_error + unit)" where
  "askStream parse throws outcome =
     (case outcome of
        Rejects m \<Rightarrow> ([], Inl (TypeError m))
      | Resolves response \<Rightarrow>
          (case (ok response, reads response) of
             (True, Some (chunks, fin)) \<Rightarrow>
               (read_loop parse throws chunks,
                (case fin of Done \<Rightarrow> Inr () | ReadFails e \<Rightarrow> Inl e))
           | _ \<Rightarrow> ([], Inl (Error (''Stream error: '' @ decimal (status response))))))"

section \<open>The client of lib/api\<close>

text \<open>The options of a request (\<open>RequestInit\<close>); \<open>None\<close> is a property left out.\<close>

record request_init =
  init_method :: "string option"
  init_headers :: "(string \<times> string) list option"
  init_body :: "json option"

text \<open>
  \<open>config\<close> spreads \<open>options\<close> after its own \<open>headers\<close>, so the headers of \<open>options\<close>, when
  given, replace the merged ones; \<open>fetch\<close> sends GET when no method is given.
\<close>

definition apiRequest_config :: "string \<Rightarrow> request_init \<Rightarrow> http_request" where
  "apiRequest_config endpoint options =
     \<lparr>url = API_BASE_URL @ endpoint,
      http_method = (case init_method options of None \<Rightarrow> ''GET'' | Some m \<Rightarrow> m),
      headers = (case init_headers options of
                   None \<Rightarrow> [(''Content-Type'', ''application/json'')]
                 | Some h \<Rightarrow> h),
      body = init_body options\<rparr>"

text \<open>
  The message of an HTTP-level failure. Reading \<open>detail\<close> off \<open>null\<close> throws inside the inner
  \<open>try\<close>, as a body that is not JSON does. A \<open>detail\<close> that is not a string reaches the
  \<open>Error\<close> constructor, which converts it; \<open>toStr\<close> is that conversion.
\<close>

definition failure_message ::
  "(json \<Rightarrow> string) \<Rightarrow> 'a json_response \<Rightarrow> string" where
  "failure_message toStr response =
     (let errorMessage =
            ''Request failed: '' @ decimal (status response) @ '' '' @ statusText response
      in case json_any response of
           Inl e \<Rightarrow> errorMessage
         | Inr JNull \<Rightarrow> errorMessage
         | Inr errorData \<Rightarrow>
             if truthy (get_prop errorData ''detail'') then
               (case get_prop errorData ''detail'' of
                  Some (JString s) \<Rightarrow> s
                | Some d \<Rightarrow> toStr d
                | None \<Rightarrow> errorMessage)
             else errorMessage)"

definition apiRequest_catch :: "js_error \<Rightarrow> js_error" where
  "apiRequest_catch error =
     (case error of
        DocuMentorApiError m st txt \<Rightarrow> error
      | TypeError m \<Rightarrow>
          if js_includes m ''fetch'' then
            DocuMentorApiError
              ''Network error: Unable to connect to the server. Please check your connection and try again.''
              0 ''Network Error''
          else DocuMentorApiError ''An unexpected error occurred. Please try again.'' 500
                 ''Unknown Error''
      | _ \<Rightarrow> DocuMentorApiError ''An unexpected error occurred. Please try again.'' 500
               ''Unknown Error'')"

definition apiRequest_result ::
  "(json \<Rightarrow> string) \<Rightarrow> 'a json_response fetch_result \<Rightarrow> js_error + 'a" where
  "apiRequest_result toStr outcome =
     (let attempt =
            (case outcome of
               Rejects m \<Rightarrow> Inl (TypeError m)
             | Resolves response \<Rightarrow>
                 if \<not> ok response
                 then Inl (DocuMentorApiError (failure_message toStr response)
                             (status response) (statusText response))
                 else json_as response)
      in case attempt of
           Inl error \<Rightarrow> Inl (apiRequest_catch error)
         | Inr data \<Rightarrow> Inr data)"

definition apiRequest ::
  "(json \<Rightarrow> string) \<Rightarrow> (http_request \<Rightarrow> 'a json_response fetch_result)
     \<Rightarrow> string \<Rightarrow> request_init \<Rightarrow> js_error + 'a" where
  "apiRequest toStr fetch endpoint options =
     apiRequest_result toStr (fetch (apiRequest_config endpoint options))"

text \<open>The \<open>AskRequest\<close> of types/api: question, source, conversation_id.\<close>

datatype AskRequest = AskRequest string "string option" "string option"

fun api_ask_options :: "AskRequest \<Rightarrow> request_init" where
  "api_ask_options (AskRequest question source conversation) =
     \<lparr>init_method = Some ''POST'',
      init_headers = None,
      init_body = Some (stringify_object
        [(''question'', Some (JString question)),
         (''source'', map_option JString source),
         (''conversation_id'', map_option JString conversation)])\<rparr>"

definition api_ask ::
  "(json \<Rightarrow> string) \<Rightarrow> (http_request \<Rightarrow> 'a json_response fetch_result)
     \<Rightarrow> AskRequest \<Rightarrow> js_error + 'a" where
  "api_ask toStr fetch request = apiRequest toStr fetch ''/ask'' (api_ask_options request)"

section \<open>Messages and the two layouts\<close>

text \<open>
  The arithmetic of JavaScript Numbers is the runtime's (IEEE 754 binary64), not the
  repository's, so the handlers take it as given: \<open>'n\<close> is the type of Numbers, and the
  record holds the Number of an integer (a literal, a \<open>Date.now()\<close> reading), \<open>x - y\<close>,
  \<open>x * y\<close>, \<open>x / y\<close>, \<open>Math.round(x)\<close> and \<open>x.toFixed(digits)\<close>. What is proved of a
  handler holds for every such arithmetic.
\<close>

record 'n arithmetic =
  Number :: "int \<Rightarrow> 'n"
  js_sub :: "'n \<Rightarrow> 'n \<Rightarrow> 'n"
  js_mul :: "'n \<Rightarrow> 'n \<Rightarrow> 'n"
  js_div :: "'n \<Rightarrow> 'n \<Rightarrow> 'n"
  Math_round :: "'n \<Rightarrow> 'n"
  toFixed :: "'n \<Rightarrow> nat \<Rightarrow> string"

text \<open>
  \<open>AskResponse\<close> as services/api.ts declares it, and its extension in types/api. A
  successful reply is read at that type. The type of a source is left open: it is
  \<open>Source\<close> in the first client and \<open>string\<close> in the second.
\<close>

record ('src, 'n) AskResponse =
  answer :: string
  sources :: "'src list"
  response_time :: 'n
  confidence :: 'n

record ('src, 'n) AskResponse' = "('src, 'n) AskResponse" +
  conversation_id :: string

datatype role = User | Assistant

text \<open>\<open>Message\<close>; the fields \<open>id\<close>, \<open>sources\<close> and \<open>confidence\<close> are \<open>msg_id\<close>, \<open>m_sources\<close> and
  \<open>m_confidence\<close> here, and \<open>None\<close> is an optional field left out. Dates are milliseconds.\<close>

record ('src, 'n) Message =
  msg_id :: string
  content :: string
  role :: role
  timestamp :: int
  m_sources :: "'src list option"
  m_confidence :: "'n option"
  responseTime :: "'n option"

record toast =
  title :: string
  description :: string
  variant :: "string option"

text \<open>
  The clock readings of one run of a send handler, in the order they are taken: for the
  user message (\<open>Date.now()\<close> for its id, \<open>new Date()\<close>), around the request (second layout
  only), and for the reply (\<open>Date.now()\<close> for its id, \<open>new Date()\<close>).
\<close>

record clock =
  now_user :: int
  date_user :: int
  startTime :: int
  endTime :: int
  now_reply :: int
  date_reply :: int

text \<open>
  The state of the first \<open>DocuMentorLayout\<close> (the one on services/api.ts), with what it has
  sent to the backend, shown as toasts and written to the console. A primed name belongs
  to the second \<open>DocuMentorLayout\<close> (the one on lib/api).
\<close>

record ('src, 'n) layout =
  messages :: "('src, 'n) Message list"
  isLoading :: bool
  isSidebarOpen :: bool
  selectedSource :: "string option"
  isCommandPaletteOpen :: bool
  isDarkMode :: bool
  requests :: "http_request list"
  toasts :: "toast list"
  console :: "string list"

record 'n layout' =
  messages' :: "(string, 'n) Message list"
  isLoading' :: bool
  selectedSource' :: string
  sidebarCollapsed :: bool
  isDarkMode' :: bool
  conversationId :: "string option"
  showCommandPalette :: bool
  requests' :: "http_request list"
  toasts' :: "toast list"
  console' :: "string list"

text \<open>
  \<open>handleSendMessage\<close> of the first layout, run to completion: \<open>fetch\<close> is the backend,
  answering the request of this run. \<open>selectedSource\<close> and \<open>messages.length\<close> are the values
  at the call.
\<close>

definition handleSendMessage ::
  "'n arithmetic \<Rightarrow> (http_request \<Rightarrow> ('src, 'n) AskResponse json_response fetch_result)
     \<Rightarrow> clock \<Rightarrow> string \<Rightarrow> ('src, 'n) layout \<Rightarrow> ('src, 'n) layout" where
  "handleSendMessage ar fetch clk msg st =
     (if trim msg = [] \<or> isLoading st then st
      else
        (let userMessage =
               \<lparr>msg_id = ''msg-'' @ int_text (now_user clk), content = msg, role = User,
                timestamp = date_user clk, m_sources = None, m_confidence = None,
                responseTime = None\<rparr>;
             st1 = st\<lparr>messages := messages st @ [userMessage], isLoading := True\<rparr>;
             request = ask_request msg (selectedSource st);
             st2 = st1\<lparr>requests := requests st1 @ [request]\<rparr>;
             (logged, result) = DocuMentorAPI_ask (fetch request);
             st3 = st2\<lparr>console := console st2 @ logged\<rparr>;
             st4 =
               (case result of
                  Inr response \<Rightarrow>
                    (let aiMessage =
                           \<lparr>msg_id = ''msg-'' @ int_text (now_reply clk + 1),
                            content = answer response, role = Assistant,
                            timestamp = date_reply clk,
                            m_sources = Some (sources response),
                            m_confidence = Some (confidence response),
                            responseTime = Some (response_time response)\<rparr>;
                         st' = st3\<lparr>messages := messages st3 @ [aiMessage]\<rparr>
                     in if messages st = [] then
                          st'\<lparr>toasts := toasts st' @
                             [\<lparr>title = ''Connected to DocuMentor!'',
                               description = ''Response received in '' @
                                 toFixed ar (response_time response) 2 @ ''s'',
                               variant = None\<rparr>]\<rparr>
                        else st')
                | Inl error \<Rightarrow>
                    (let errorMessage =
                           \<lparr>msg_id = ''msg-'' @ int_text (now_reply clk + 1),
                            content = ''Sorry, I encountered an error while processing your request. Please make sure the backend server is running on http://localhost:8000'',
                            role = Assistant, timestamp = date_reply clk,
                            m_sources = None, m_confidence = None, responseTime = None\<rparr>
                     in st3\<lparr>console := console st3 @ [''Error:''],
                            messages := messages st3 @ [errorMessage],
                            toasts := toasts st3 @
                              [\<lparr>title = ''Connection Error'',
                                description = ''Failed to connect to the backend. Please check if the API server is running.'',
                                variant = Some ''destructive''\<rparr>]\<rparr>))
         in st4\<lparr>isLoading := False\<rparr>))"

definition handleClearChat :: "('src, 'n) layout \<Rightarrow> ('src, 'n) layout" where
  "handleClearChat st =
     st\<lparr>messages := [],
        toasts := toasts st @
          [\<lparr>title = ''Chat cleared'', description = ''All messages have been removed'',
            variant = None\<rparr>]\<rparr>"

text \<open>The two marks that open the welcome toast and the error reply of the second layout,
  byte for byte as the source file has them.\<close>

definition welcome_mark :: string where
  "welcome_mark =
     [CHR 0xC3, CHR 0xB0, CHR 0xC5, CHR 0xB8, CHR 0xC5, CHR 0xBD, CHR 0xE2, CHR 0x80, CHR 0xB0]"

definition error_mark :: string where
  "error_mark = [CHR 0xC3, CHR 0xA2, CHR 0xC5, CHR 0x92]"

text \<open>The request object the second layout builds: \<open>source\<close> is left out for \<open>'all'\<close>,
  \<open>conversation_id\<close> for a conversation not yet known (\<open>conversationId || undefined\<close>).\<close>

definition AskRequest_of :: "string \<Rightarrow> 'n layout' \<Rightarrow> AskRequest" where
  "AskRequest_of msg st =
     AskRequest msg
       (if selectedSource' st \<noteq> ''all'' then Some (selectedSource' st) else None)
       (case conversationId st of
          None \<Rightarrow> None
        | Some c \<Rightarrow> if c \<noteq> [] then Some c else None)"

text \<open>\<open>handleSendMessage\<close> of the second layout; it has no guard of its own.\<close>

definition handleSendMessage' ::
  "'n arithmetic \<Rightarrow> (json \<Rightarrow> string)
     \<Rightarrow> (http_request \<Rightarrow> (string, 'n) AskResponse' json_response fetch_result)
     \<Rightarrow> clock \<Rightarrow> string \<Rightarrow> 'n layout' \<Rightarrow> 'n layout'" where
  "handleSendMessage' ar toStr fetch clk msg st =
     (let userMessage =
            \<lparr>msg_id = ''user-'' @ int_text (now_user clk), content = msg, role = User,
             timestamp = date_user clk, m_sources = None, m_confidence = None,
             responseTime = None\<rparr>;
          st1 = st\<lparr>messages' := messages' st @ [userMessage], isLoading' := True\<rparr>;
          request = AskRequest_of msg st;
          st2 = st1\<lparr>requests' :=
                  requests' st1 @ [apiRequest_config ''/ask'' (api_ask_options request)]\<rparr>;
          st3 =
            (case api_ask toStr fetch request of
               Inr response \<Rightarrow>
                 (let st' =
                        (if (conversationId st = None \<or> conversationId st = Some [])
                            \<and> conversation_id response \<noteq> []
                         then st2\<lparr>conversationId := Some (conversation_id response)\<rparr>
                         else st2);
                      assistantMessage =
                        \<lparr>msg_id = ''assistant-'' @ int_text (now_reply clk),
                         content = answer response, role = Assistant,
                         timestamp = date_reply clk,
                         m_sources = Some (sources response),
                         m_confidence =
                           Some (Math_round ar (js_mul ar (confidence response) (Number ar 100))),
                         responseTime =
                           Some (js_div ar
                                   (js_sub ar (Number ar (endTime clk)) (Number ar (startTime clk)))
                                   (Number ar 1000))\<rparr>;
                      st'' = st'\<lparr>messages' := messages' st' @ [assistantMessage]\<rparr>
                  in if messages' st = [] then
                       st''\<lparr>toasts' := toasts' st'' @
                          [\<lparr>title = welcome_mark @ '' Welcome to DocuMentor!'',
                            description = ''Your AI documentation assistant is ready to help.'',
                            variant = None\<rparr>]\<rparr>
                     else st'')
             | Inl error \<Rightarrow>
                 (let errorMessage =
                        (case error of
                           DocuMentorApiError m code txt \<Rightarrow> m
                         | _ \<Rightarrow> ''Failed to get response from AI assistant.'');
                      errorResponse =
                        \<lparr>msg_id = ''error-'' @ int_text (now_reply clk),
                         content = error_mark @ '' **Error**: '' @ errorMessage @
                           [CHR 0x0A, CHR 0x0A] @
                           ''Please try again or check your connection.'',
                         role = Assistant, timestamp = date_reply clk,
                         m_sources = Some [], m_confidence = Some (Number ar 0),
                         responseTime = None\<rparr>
                  in st2\<lparr>console' := console' st2 @ [''Error sending message:''],
                         messages' := messages' st2 @ [errorResponse],
                         toasts' := toasts' st2 @
                           [\<lparr>title = ''Connection Error'', description = errorMessage,
                             variant = Some ''destructive''\<rparr>]\<rparr>))
      in st3\<lparr>isLoading' := False\<rparr>)"

section \<open>The input components\<close>

text \<open>
  The handlers that stand between the text box and a layout's \<open>handleSendMessage\<close>; the
  callback they are given is a change of the state \<open>'s\<close> of whoever owns it.
\<close>

definition ChatInput_handleSubmit ::
  "string \<Rightarrow> bool \<Rightarrow> (string \<Rightarrow> 's \<Rightarrow> 's) \<Rightarrow> 's \<Rightarrow> 's" where
  "ChatInput_handleSubmit val disabled onSubmit s =
     (if trim val = [] \<or> disabled then s else onSubmit (trim val) s)"

text \<open>\<open>ChatInterface.handleSubmit\<close>; the component's own state is its \<open>inputValue\<close>.\<close>

definition ChatInterface_handleSubmit ::
  "bool \<Rightarrow> (string \<Rightarrow> 's \<Rightarrow> 's) \<Rightarrow> string \<Rightarrow> string \<times> 's \<Rightarrow> string \<times> 's" where
  "ChatInterface_handleSubmit loading onSendMessage msg st =
     (if trim msg = [] \<or> loading then st else ([], onSendMessage msg (snd st)))"

definition WelcomeScreen_handleSubmit ::
  "(string \<Rightarrow> 's \<Rightarrow> 's) \<Rightarrow> string \<Rightarrow> string \<times> 's \<Rightarrow> string \<times> 's" where
  "WelcomeScreen_handleSubmit onSendMessage msg st = (fst st, onSendMessage msg (snd st))"

text \<open>
  The text box as each screen mounts it: \<open>ChatInterface\<close> passes its \<open>handleSubmit\<close> and
  \<open>disabled = isLoading\<close>, \<open>WelcomeScreen\<close> its \<open>handleSubmit\<close> and \<open>disabled = false\<close>. The
  value submitted is the component's \<open>inputValue\<close>.
\<close>

definition ChatInterface_submit ::
  "bool \<Rightarrow> (string \<Rightarrow> 's \<Rightarrow> 's) \<Rightarrow> string \<times> 's \<Rightarrow> string \<times> 's" where
  "ChatInterface_submit loading onSendMessage st =
     ChatInput_handleSubmit (fst st) loading
       (ChatInterface_handleSubmit loading onSendMessage) st"

definition WelcomeScreen_submit ::
  "(string \<Rightarrow> 's \<Rightarrow> 's) \<Rightarrow> string \<times> 's \<Rightarrow> string \<times> 's" where
  "WelcomeScreen_submit onSendMessage st =
     ChatInput_handleSubmit (fst st) False (WelcomeScreen_handleSubmit onSendMessage) st"

section \<open>Concrete runs\<close>

text \<open>
  The surroundings of the concrete runs below: a backend that gives every request the same
  outcome, a callback that never throws, the conversion of a \<open>detail\<close> that is a string,
  the states the two layouts start in (their \<open>useState\<close> defaults), an arithmetic, the
  clock readings of a run, and the property of a request body.
\<close>

definition always :: "'r fetch_result \<Rightarrow> http_request \<Rightarrow> 'r fetch_result" where
  "always outcome request = outcome"

definition quiet :: "json \<Rightarrow> bool" where
  "quiet data \<longleftrightarrow> False"

definition plain :: "json \<Rightarrow> string" where
  "plain v = (case v of JString s \<Rightarrow> s | _ \<Rightarrow> [])"

definition initial :: "('src, 'n) layout" where
  "initial =
     \<lparr>messages = [], isLoading = False, isSidebarOpen = True, selectedSource = None,
      isCommandPaletteOpen = False, isDarkMode = True, requests = [], toasts = [],
      console = []\<rparr>"

definition initial' :: "'n layout'" where
  "initial' =
     \<lparr>messages' = [], isLoading' = False, selectedSource' = ''all'',
      sidebarCollapsed = False, isDarkMode' = False, conversationId = None,
      showCommandPalette = False, requests' = [], toasts' = [], console' = []\<rparr>"

text \<open>
  The arithmetic of the concrete runs is binary64 on finite values: a Number is the rational
  it is exactly, and an operation gives the binary64 value nearest its exact result, a tie
  going to the even significand. \<open>Math.round\<close> takes a tie upwards, and \<open>toFixed\<close> prints
  the digits of the exact value, a tie upwards (as it does below 1e21). Infinity, NaN and
  the sign of zero are not values here; the concrete runs do not meet them.
\<close>

definition two_pow :: "int \<Rightarrow> rat" where
  "two_pow e = (if 0 \<le> e then 2 ^ nat e else 1 / 2 ^ nat (- e))"

function bitlen :: "int \<Rightarrow> int" where
  "bitlen k = (if k \<le> 0 then 0 else 1 + bitlen (k div 2))"
  by pat_completeness auto
termination
  by (relation "measure nat") auto

declare bitlen.simps [simp del]

text \<open>The binary exponent of a positive value: \<open>2 ^ e \<le> a < 2 ^ (e + 1)\<close>.\<close>

definition exponent :: "rat \<Rightarrow> int" where
  "exponent a =
     (let e0 = bitlen (fst (quotient_of a)) - bitlen (snd (quotient_of a))
      in if two_pow e0 \<le> a then e0 else e0 - 1)"

definition round_half_even :: "rat \<Rightarrow> int" where
  "round_half_even x =
     (let f = \<lfloor>x\<rfloor>; d = x - of_int f
      in if d < 1 / 2 then f else if 1 / 2 < d then f + 1 else if even f then f else f + 1)"

text \<open>The binary64 value nearest a rational: 53 significant bits, and below \<open>2 ^ - 1022\<close> the
  fixed spacing of the subnormal values.\<close>

definition binary64 :: "rat \<Rightarrow> rat" where
  "binary64 x =
     (if x = 0 then 0
      else
        (let a = \<bar>x\<bar>;
             e = max (exponent a) (- 1022);
             q = two_pow (e - 52);
             n = round_half_even (a / q)
         in (if x < 0 then - 1 else 1) * of_int n * q))"

definition toFixed_digits :: "rat \<Rightarrow> nat \<Rightarrow> string" where
  "toFixed_digits x f =
     (let n = nat \<lfloor>\<bar>x\<bar> * 10 ^ f + 1 / 2\<rfloor>;
          ds = replicate (f + 1 - length (decimal n)) (CHR ''0'') @ decimal n
      in (if x < 0 then ''-'' else []) @ take (length ds - f) ds @
         (if f = 0 then [] else CHR ''.'' # drop (length ds - f) ds))"

definition double :: "rat arithmetic" where
  "double =
     \<lparr>Number = (\<lambda>i. binary64 (of_int i)),
      js_sub = (\<lambda>x y. binary64 (x - y)),
      js_mul = (\<lambda>x y. binary64 (x * y)),
      js_div = (\<lambda>x y. binary64 (x / y)),
      Math_round = (\<lambda>x. of_int \<lfloor>x + 1 / 2\<rfloor>),
      toFixed = toFixed_digits\<rparr>"

definition clock_reading :: clock where
  "clock_reading =
     \<lparr>now_user = 1000, date_user = 1000, startTime = 1001, endTime = 1501,
      now_reply = 1502, date_reply = 1502\<rparr>"

definition body_field :: "http_request \<Rightarrow> string \<Rightarrow> json option" where
  "body_field request name =
     (case body request of None \<Rightarrow> None | Some b \<Rightarrow> get_prop b name)"

section \<open>Auxiliary facts\<close>

subsection \<open>Lines and reads\<close>

lemma js_split_not_Nil: "js_split sep s \<noteq> []"
  by (induction s) (auto split: list.splits)

lemma js_split_append: "js_split sep (xs @ sep # ys) = js_split sep xs @ js_split sep ys"
proof (induction xs)
  case Nil
  show ?case by simp
next
  case (Cons c xs)
  obtain l ls where "js_split sep xs = l # ls"
    using js_split_not_Nil [of sep xs] by (cases "js_split sep xs") auto
  with Cons show ?case by simp
qed

lemma for_lines_append:
  "for_lines parse throws (ls @ ms) = for_lines parse throws ls @ for_lines parse throws ms"
  by (induction ls) simp_all

lemma read_loop_append:
  "read_loop parse throws (cs @ ds) = read_loop parse throws cs @ read_loop parse throws ds"
  by (induction cs) simp_all

lemma on_line_Nil: "on_line parse throws [] = []"
  by (simp add: on_line_def startsWith_def)

lemma for_lines_chunk_newline:
  "for_lines parse throws (js_split (CHR 0x0A) (xs @ [CHR 0x0A])) =
   for_lines parse throws (js_split (CHR 0x0A) xs)"
  using js_split_append [of "CHR 0x0A" xs "[]"]
  by (simp add: for_lines_append on_line_Nil)

text \<open>Reads that each end at a line boundary decode as their concatenation does.\<close>

lemma read_loop_line_aligned:
  assumes "\<forall>c \<in> set chunks. c = [] \<or> last c = CHR 0x0A"
  shows "read_loop parse throws chunks =
         for_lines parse throws (js_split (CHR 0x0A) (concat chunks))"
  using assms
proof (induction chunks)
  case Nil
  show ?case by (simp add: on_line_Nil)
next
  case (Cons c cs)
  then have IH: "read_loop parse throws cs =
      for_lines parse throws (js_split (CHR 0x0A) (concat cs))"
    by simp
  show ?case
  proof (cases "c = []")
    case True
    with IH show ?thesis by (simp add: on_line_Nil)
  next
    case False
    with Cons.prems have "last c = CHR 0x0A" by simp
    with False have c: "c = butlast c @ [CHR 0x0A]"
      by (metis append_butlast_last_id)
    have "js_split (CHR 0x0A) (concat (c # cs)) =
          js_split (CHR 0x0A) (butlast c) @ js_split (CHR 0x0A) (concat cs)"
      using js_split_append [of "CHR 0x0A" "butlast c" "concat cs"] c
      by (metis append_Cons append_Nil append_assoc concat.simps(2))
    moreover have "for_lines parse throws (js_split (CHR 0x0A) c) =
                   for_lines parse throws (js_split (CHR 0x0A) (butlast c))"
      using for_lines_chunk_newline [of parse throws "butlast c"] c by simp
    ultimately show ?thesis using IH by (simp add: for_lines_append)
  qed
qed

lemma askStream_ok:
  assumes "ok response" and "reads response = Some (chunks, fin)"
  shows "askStream parse throws (Resolves response) =
         (read_loop parse throws chunks, (case fin of Done \<Rightarrow> Inr () | ReadFails e \<Rightarrow> Inl e))"
  using assms by (simp add: askStream_def)

lemma OnChunk_on_line:
  "OnChunk d \<in> set (on_line parse throws line) \<longleftrightarrow>
   startsWith line ''data: '' \<and> parse (slice line 6) = Some d"
  by (auto simp: on_line_def split: option.splits)

lemma OnChunk_for_lines:
  "OnChunk d \<in> set (for_lines parse throws lines) \<longleftrightarrow>
   (\<exists>line \<in> set lines. startsWith line ''data: '' \<and> parse (slice line 6) = Some d)"
  by (induction lines) (simp_all add: OnChunk_on_line)

lemma OnChunk_read_loop:
  "OnChunk d \<in> set (read_loop parse throws chunks) \<longleftrightarrow>
   (\<exists>chunk \<in> set chunks. \<exists>line \<in> set (js_split (CHR 0x0A) chunk).
      startsWith line ''data: '' \<and> parse (slice line 6) = Some d)"
  by (induction chunks) (simp_all add: OnChunk_for_lines)

lemma for_lines_filter:
  "for_lines parse throws (filter (\<lambda>l. startsWith l ''data: '') lines) =
   for_lines parse throws lines"
  by (induction lines) (simp_all add: on_line_def)

subsection \<open>Evaluations\<close>

lemma parse_a1: \<open>JSON_parse ''{"a":1}'' = Some (JObject [(''a'', JNumber 1)])\<close>
  by code_simp

lemma parse_b2: \<open>JSON_parse ''{"b":2}'' = Some (JObject [(''b'', JNumber 2)])\<close>
  by code_simp

lemma parse_a_cut: \<open>JSON_parse ''{"a"'' = None\<close>
  by code_simp

lemma decimal_404: "decimal 404 = ''404''"
  by (simp add: decimal.simps)

lemma decimal_500: "decimal 500 = ''500''"
  by (simp add: decimal.simps)

lemma trim_hello: "trim ''hello'' = ''hello''"
  by (simp add: trim_def trimStart_def trimEnd_def whitespace_def startsWith_def)

lemma parse_b_cut: \<open>JSON_parse ''{"b"'' = None\<close>
  by code_simp

text \<open>The confidence 0.285 and the response time 1.005, as the binary64 values they are.\<close>

lemma double_percent:
  "Math_round double (js_mul double (binary64 (57 / 200)) (Number double 100)) = 28"
  by code_simp

lemma double_elapsed:
  "js_div double (js_sub double (Number double 4001) (Number double 1001))
     (Number double 1000) = 3"
  by code_simp

lemma double_toFixed: "toFixed double (binary64 (201 / 200)) 2 = ''1.00''"
  by code_simp

subsection \<open>Substrings\<close>

lemma startsWith_includes: "startsWith s p \<Longrightarrow> js_includes s p"
  by (cases s) (auto simp: startsWith_def)

lemma js_includes_append_left: "js_includes s p \<Longrightarrow> js_includes (a @ s) p"
  by (induction a) simp_all

lemma js_includes_middle: "js_includes (a @ b @ c) b"
  by (rule js_includes_append_left, rule startsWith_includes) (simp add: startsWith_def)

subsection \<open>Whitespace\<close>

text \<open>No whitespace code point is empty or the beginning of another, so \<open>trim\<close> takes a
  text made of them apart the way it was put together.\<close>

lemma whitespace_code:
  "\<forall>w \<in> set whitespace. \<forall>x \<in> set whitespace.
     w \<noteq> [] \<and> (take (length w) x = w \<or> take (length x) w = x \<longrightarrow> w = x)"
  by code_simp

lemma take_append_prefix:
  "take (length w) (x @ rest) = w \<Longrightarrow> take (length w) x = w \<or> take (length x) w = x"
proof (cases "length w \<le> length x")
  case True
  assume "take (length w) (x @ rest) = w"
  with True show ?thesis by simp
next
  case False
  assume "take (length w) (x @ rest) = w"
  then have "take (length x) w = take (length x) (take (length w) (x @ rest))" by simp
  also have "\<dots> = x" using False by (simp add: min_def)
  finally show ?thesis by simp
qed

lemma whitespace_prefix_free:
  assumes "w \<in> set whitespace" and "x \<in> set whitespace" and "startsWith (x @ rest) w"
  shows "w = x"
  using assms whitespace_code take_append_prefix [of w x rest]
  by (auto simp: startsWith_def)

lemma strip_whitespace_concat:
  "set xs \<subseteq> set whitespace \<Longrightarrow> strip whitespace (concat xs) = []"
proof (induction xs)
  case Nil
  show ?case by simp
next
  case (Cons x xs)
  then have x: "x \<in> set whitespace" and IH: "strip whitespace (concat xs) = []"
    by simp_all
  from x whitespace_code have "x \<noteq> []" by blast
  then obtain c x' where cx: "x = c # x'" by (cases x) simp_all
  have sw: "startsWith (x @ concat xs) x" by (simp add: startsWith_def)
  show ?case
  proof (cases "find (startsWith (x @ concat xs)) whitespace")
    case None
    with x sw show ?thesis by (auto simp: find_None_iff)
  next
    case (Some w)
    then have "w \<in> set whitespace" and "startsWith (x @ concat xs) w"
      by (auto simp: find_Some_iff)
    with x have "w = x" using whitespace_prefix_free by blast
    with Some cx IH show ?thesis by simp
  qed
qed

lemma trim_whitespace_only:
  "set xs \<subseteq> set whitespace \<Longrightarrow> trim (concat xs) = []"
  by (simp add: trim_def trimStart_def trimEnd_def strip_whitespace_concat)

subsection \<open>The two clients\<close>

lemma DocuMentorAPI_ask_failure:
  "\<not> ok response \<Longrightarrow>
   snd (DocuMentorAPI_ask (Resolves response)) =
     Inl (Error (''API error: '' @ decimal (status response)))"
  by (simp add: DocuMentorAPI_ask_def)

lemma apiRequest_result_failure:
  "\<not> ok response \<Longrightarrow>
   apiRequest_result toStr (Resolves response) =
     Inl (DocuMentorApiError (failure_message toStr response) (status response)
            (statusText response))"
  by (simp add: apiRequest_result_def apiRequest_catch_def)

lemma failure_message_detail:
  "json_any response = Inr (JObject kvs) \<Longrightarrow> map_of (rev kvs) ''detail'' = Some (JString s)
   \<Longrightarrow> s \<noteq> [] \<Longrightarrow> failure_message toStr response = s"
  by (simp add: failure_message_def)

lemma failure_message_fallback:
  "(\<exists>e. json_any response = Inl e)
     \<or> (\<exists>v. json_any response = Inr v \<and> \<not> truthy (get_prop v ''detail''))
   \<Longrightarrow> failure_message toStr response =
       ''Request failed: '' @ decimal (status response) @ '' '' @ statusText response"
  by (auto simp: failure_message_def Let_def split: json.splits)

text \<open>A transport failure that the clients tell from an HTTP-level failure: in
  \<open>apiRequest\<close> one whose message contains \<open>fetch\<close>, in \<open>DocuMentorAPI.ask\<close> every one.\<close>

lemma recognised_transport_failure:
  assumes "js_includes m ''fetch''"
    and "\<not> ok response"
    and "status response \<noteq> 0"
  shows "apiRequest_result toStr (Rejects m) =
           Inl (DocuMentorApiError
             ''Network error: Unable to connect to the server. Please check your connection and try again.''
             0 ''Network Error'')
       \<and> apiRequest_result toStr (Rejects m) \<noteq> apiRequest_result toStr (Resolves response)
       \<and> snd (DocuMentorAPI_ask (Rejects n)) = Inl (TypeError n)
       \<and> snd (DocuMentorAPI_ask (Rejects n)) \<noteq> snd (DocuMentorAPI_ask (Resolves response))"
  using assms
  by (simp add: apiRequest_result_failure DocuMentorAPI_ask_failure)
     (simp add: apiRequest_result_def apiRequest_catch_def DocuMentorAPI_ask_def)

lemma api_ask_always:
  "ok response \<Longrightarrow> json_as response = Inr data \<Longrightarrow>
   api_ask toStr (always (Resolves response)) request = Inr data"
  by (simp add: api_ask_def apiRequest_def apiRequest_result_def always_def)

lemma ask_request_body:
  "body_field (ask_request question sourceFilter) name =
     (if name = ''max_tokens'' then Some (JNumber 1024)
      else if name = ''temperature'' then Some (JNumber (1 / 10))
      else if name = ''k'' then Some (JNumber 5)
      else if name = ''source_filter'' then map_option JString sourceFilter
      else if name = ''question'' then Some (JString question)
      else None)"
  by (cases sourceFilter) (simp_all add: body_field_def ask_request_def stringify_object_def)

lemma api_ask_body:
  "body_field (apiRequest_config ''/ask''
     (api_ask_options (AskRequest question source conversation))) name =
     (if name = ''conversation_id'' then map_option JString conversation
      else if name = ''source'' then map_option JString source
      else if name = ''question'' then Some (JString question)
      else None)"
  by (cases source; cases conversation)
     (simp_all add: body_field_def apiRequest_config_def stringify_object_def)

subsection \<open>The send handlers\<close>

lemma handleSendMessage_guard:
  "trim msg = [] \<or> isLoading st \<Longrightarrow> handleSendMessage ar fetch clk msg st = st"
  by (simp add: handleSendMessage_def)

lemma handleSendMessage_isLoading:
  "\<not> isLoading st \<Longrightarrow> \<not> isLoading (handleSendMessage ar fetch clk msg st)"
  by (simp add: handleSendMessage_def Let_def split: prod.splits sum.splits)

lemma handleSendMessage'_isLoading:
  "\<not> isLoading' (handleSendMessage' ar toStr fetch clk msg st)"
  by (simp add: handleSendMessage'_def Let_def split: sum.splits)

lemma handleSendMessage_success:
  assumes "trim msg \<noteq> []" and "\<not> isLoading st"
    and "snd (DocuMentorAPI_ask (fetch (ask_request msg (selectedSource st)))) = Inr response"
  shows "messages (handleSendMessage ar fetch clk msg st) =
         messages st @
           [\<lparr>msg_id = ''msg-'' @ int_text (now_user clk), content = msg, role = User,
             timestamp = date_user clk, m_sources = None, m_confidence = None,
             responseTime = None\<rparr>,
            \<lparr>msg_id = ''msg-'' @ int_text (now_reply clk + 1), content = answer response,
             role = Assistant, timestamp = date_reply clk,
             m_sources = Some (sources response),
             m_confidence = Some (confidence response),
             responseTime = Some (response_time response)\<rparr>]"
  using assms
  by (cases "DocuMentorAPI_ask (fetch (ask_request msg (selectedSource st)))")
     (simp add: handleSendMessage_def Let_def)

lemma handleSendMessage'_success:
  assumes "api_ask toStr fetch (AskRequest_of msg st) = Inr response"
  shows "messages' (handleSendMessage' ar toStr fetch clk msg st) =
         messages' st @
           [\<lparr>msg_id = ''user-'' @ int_text (now_user clk), content = msg, role = User,
             timestamp = date_user clk, m_sources = None, m_confidence = None,
             responseTime = None\<rparr>,
            \<lparr>msg_id = ''assistant-'' @ int_text (now_reply clk), content = answer response,
             role = Assistant, timestamp = date_reply clk,
             m_sources = Some (sources response),
             m_confidence =
               Some (Math_round ar (js_mul ar (confidence response) (Number ar 100))),
             responseTime =
               Some (js_div ar (js_sub ar (Number ar (endTime clk)) (Number ar (startTime clk)))
                       (Number ar 1000))\<rparr>]"
  using assms by (simp add: handleSendMessage'_def Let_def)

section \<open>The stream decoder\<close>

text \<open>
  C1, as amended. \<open>askStream\<close> keeps nothing between reads: each read's text is split into
  lines and handled on its own. When every read ends at a line boundary (or is empty), the
  effects are those of the lines of the whole text, in order; so the reads
  \<open>data: {"a":1}\n\<close> and \<open>data: {"b":2}\n\<close> give the callback \<open>{a:1}\<close> and then \<open>{b:2}\<close>.
\<close>

theorem askStream_line_aligned_reads:
  assumes "ok response"
    and "reads response = Some (chunks, fin)"
    and "\<forall>c \<in> set chunks. c = [] \<or> last c = CHR 0x0A"
  shows "fst (askStream parse throws (Resolves response)) =
         for_lines parse throws (js_split (CHR 0x0A) (concat chunks))"
  using assms by (simp add: askStream_ok read_loop_line_aligned)

theorem askStream_line_aligned_reads_witness:
  \<open>fst (askStream JSON_parse quiet
          (Resolves \<lparr>status = 200, statusText = ''OK'',
             reads = Some ([''data: {"a":1}\<newline>'', ''data: {"b":2}\<newline>''], Done)\<rparr>)) =
     [OnChunk (JObject [(''a'', JNumber 1)]), OnChunk (JObject [(''b'', JNumber 2)])]\<close>
proof -
  let ?r = \<open>\<lparr>status = 200, statusText = ''OK'',
             reads = Some ([''data: {"a":1}\<newline>'', ''data: {"b":2}\<newline>''], Done)\<rparr>\<close>
  have 1: "ok ?r" by (simp add: ok_def)
  have 2: \<open>reads ?r = Some ([''data: {"a":1}\<newline>'', ''data: {"b":2}\<newline>''], Done)\<close> by simp
  have 3: \<open>\<forall>c \<in> set [''data: {"a":1}\<newline>'', ''data: {"b":2}\<newline>'']. c = [] \<or> last c = CHR 0x0A\<close>
    by simp
  show ?thesis
    using askStream_line_aligned_reads [OF 1 2 3, of JSON_parse quiet]
    by (simp add: on_line_def startsWith_def slice_def parse_a1 parse_b2 quiet_def)
qed

text \<open>
  The same bytes with the first read ending after \<open>{"a"\<close>: the fragment is parsed as it
  stands and reported, its continuation \<open>:1}\<close> is a line without the prefix, and only
  \<open>{b:2}\<close> reaches the callback.
\<close>

theorem askStream_split_line_counterexample:
  \<open>fst (askStream JSON_parse quiet
          (Resolves \<lparr>status = 200, statusText = ''OK'',
             reads = Some ([''data: {"a"'', '':1}\<newline>data: {"b":2}\<newline>''], Done)\<rparr>)) =
     [ConsoleError, OnChunk (JObject [(''b'', JNumber 2)])]
   \<and> fst (askStream JSON_parse quiet
          (Resolves \<lparr>status = 200, statusText = ''OK'',
             reads = Some ([''data: {"a"'', '':1}\<newline>data: {"b":2}\<newline>''], Done)\<rparr>)) \<noteq>
     [OnChunk (JObject [(''a'', JNumber 1)]), OnChunk (JObject [(''b'', JNumber 2)])]\<close>
  by (simp add: askStream_def ok_def on_line_def startsWith_def slice_def
      parse_a_cut parse_b2 quiet_def)

text \<open>
  C2, as amended. When every read ends at a line boundary (or is empty), a line of the
  stream body that begins with \<open>data: \<close> and whose remainder does not parse is reported
  once on the console and nothing more: the call's effects are those of the lines before
  it, the report, and those of the lines after it, so every well-formed event of the body,
  before or after, reaches the callback, and how the call ends depends on the reader
  alone. (\<open>askStream\<close> carries nothing over from one read to the next, so a line cut by a
  read boundary is handled as the two pieces it arrives in.)
\<close>

theorem malformed_event_is_reported_and_skipped:
  assumes "ok response"
    and "reads response = Some (chunks, fin)"
    and "\<forall>c \<in> set chunks. c = [] \<or> last c = CHR 0x0A"
    and "js_split (CHR 0x0A) (concat chunks) = pre @ bad # post"
    and "startsWith bad ''data: ''"
    and "parse (slice bad 6) = None"
  shows "askStream parse throws (Resolves response) =
           (for_lines parse throws pre @ ConsoleError # for_lines parse throws post,
            (case fin of Done \<Rightarrow> Inr () | ReadFails e \<Rightarrow> Inl e))
       \<and> (\<forall>line d. line \<in> set pre \<and> startsWith line ''data: '' \<and> parse (slice line 6) = Some d
             \<longrightarrow> OnChunk d \<in> set (for_lines parse throws pre))
       \<and> (\<forall>line d. line \<in> set post \<and> startsWith line ''data: '' \<and> parse (slice line 6) = Some d
             \<longrightarrow> OnChunk d \<in> set (for_lines parse throws post))"
proof -
  have "on_line parse throws bad = [ConsoleError]"
    using assms(5,6) by (simp add: on_line_def)
  then have "for_lines parse throws (js_split (CHR 0x0A) (concat chunks)) =
      for_lines parse throws pre @ ConsoleError # for_lines parse throws post"
    using assms(4) by (simp add: for_lines_append)
  moreover have "read_loop parse throws chunks =
      for_lines parse throws (js_split (CHR 0x0A) (concat chunks))"
    using assms(3) by (rule read_loop_line_aligned)
  ultimately have "askStream parse throws (Resolves response) =
           (for_lines parse throws pre @ ConsoleError # for_lines parse throws post,
            (case fin of Done \<Rightarrow> Inr () | ReadFails e \<Rightarrow> Inl e))"
    using assms(1,2) by (simp add: askStream_ok)
  then show ?thesis
    by (auto simp: OnChunk_for_lines)
qed

theorem malformed_event_is_reported_and_skipped_witness:
  \<open>askStream JSON_parse quiet
     (Resolves \<lparr>status = 200, statusText = ''OK'',
        reads = Some ([''data: {"a":1}\<newline>'', ''data: {"a"\<newline>data: {"b":2}\<newline>'', ''data: {"a":1}\<newline>''],
                      Done)\<rparr>) =
   ([OnChunk (JObject [(''a'', JNumber 1)]), ConsoleError,
     OnChunk (JObject [(''b'', JNumber 2)]), OnChunk (JObject [(''a'', JNumber 1)])],
    Inr ())\<close>
proof -
  let ?r = \<open>\<lparr>status = 200, statusText = ''OK'',
        reads = Some ([''data: {"a":1}\<newline>'', ''data: {"a"\<newline>data: {"b":2}\<newline>'', ''data: {"a":1}\<newline>''],
                      Done)\<rparr>\<close>
  have 1: "ok ?r" by (simp add: ok_def)
  have 2: \<open>reads ?r =
      Some ([''data: {"a":1}\<newline>'', ''data: {"a"\<newline>data: {"b":2}\<newline>'', ''data: {"a":1}\<newline>''], Done)\<close>
    by simp
  have 3: \<open>\<forall>c \<in> set [''data: {"a":1}\<newline>'', ''data: {"a"\<newline>data: {"b":2}\<newline>'', ''data: {"a":1}\<newline>''].
      c = [] \<or> last c = CHR 0x0A\<close>
    by simp
  have 4: \<open>js_split (CHR 0x0A)
        (concat [''data: {"a":1}\<newline>'', ''data: {"a"\<newline>data: {"b":2}\<newline>'', ''data: {"a":1}\<newline>'']) =
      [''data: {"a":1}''] @ ''data: {"a"'' # [''data: {"b":2}'', ''data: {"a":1}'', []]\<close>
    by simp
  have 5: \<open>startsWith ''data: {"a"'' ''data: ''\<close> by (simp add: startsWith_def)
  have 6: \<open>JSON_parse (slice ''data: {"a"'' 6) = None\<close> by (simp add: slice_def parse_a_cut)
  show ?thesis
    using malformed_event_is_reported_and_skipped
      [where bad = \<open>''data: {"a"''\<close> and parse = JSON_parse and throws = quiet
         and response = ?r
         and chunks = \<open>[''data: {"a":1}\<newline>'', ''data: {"a"\<newline>data: {"b":2}\<newline>'', ''data: {"a":1}\<newline>'']\<close>
         and fin = Done and pre = \<open>[''data: {"a":1}'']\<close>
         and post = \<open>[''data: {"b":2}'', ''data: {"a":1}'', []]\<close>, OF 1 2 3 4 5 6]
    by (simp add: on_line_def startsWith_def slice_def parse_a1 parse_b2 quiet_def)
qed

text \<open>
  Two bodies whose reads cut a line. In the first the body's only line, \<open>data: {"a"\<close>, has
  the prefix and does not parse, and arrives as \<open>da\<close> and \<open>ta: {"a"\<close>: nothing is reported.
  In the second the well-formed \<open>data: {"b":2}\<close> follows the malformed line and is cut after
  \<open>{"b"\<close>: it is reported as a second failure and never reaches the callback.
\<close>

theorem cut_line_counterexample:
  \<open>askStream JSON_parse quiet
     (Resolves \<lparr>status = 200, statusText = ''OK'',
        reads = Some ([''da'', ''ta: {"a"\<newline>''], Done)\<rparr>) = ([], Inr ())
   \<and> askStream JSON_parse quiet
       (Resolves \<lparr>status = 200, statusText = ''OK'',
          reads = Some ([''data: {"a"\<newline>data: {"b"'', '':2}\<newline>''], Done)\<rparr>) =
       ([ConsoleError, ConsoleError], Inr ())\<close>
  by (simp add: askStream_def ok_def on_line_def startsWith_def slice_def
      parse_a_cut parse_b_cut quiet_def)

section \<open>The two clients\<close>

text \<open>
  C3, as amended. For a response that is not 2xx, \<open>apiRequest\<close> (lib/api) throws a
  \<open>DocuMentorApiError\<close> with the response's status and status text; its message is the
  body's \<open>detail\<close> when the body is a JSON object whose \<open>detail\<close> is a non-empty string, and
  the fallback \<open>Request failed: <status> <statusText>\<close>, which contains the status code,
  when the body is not JSON or its \<open>detail\<close> is absent or falsy. \<open>DocuMentorAPI.ask\<close>
  (services/api.ts) does not read the body: its error is \<open>API error: <status>\<close> whatever the
  body says.
\<close>

theorem non_2xx_error_message:
  assumes "\<not> ok response"
  shows "apiRequest_result toStr (Resolves response) =
           Inl (DocuMentorApiError (failure_message toStr response) (status response)
                  (statusText response))
       \<and> (\<forall>kvs s. json_any response = Inr (JObject kvs)
              \<and> map_of (rev kvs) ''detail'' = Some (JString s) \<and> s \<noteq> []
            \<longrightarrow> failure_message toStr response = s)
       \<and> ((\<exists>e. json_any response = Inl e)
              \<or> (\<exists>v. json_any response = Inr v \<and> \<not> truthy (get_prop v ''detail''))
            \<longrightarrow> failure_message toStr response =
                  ''Request failed: '' @ decimal (status response) @ '' '' @ statusText response)
       \<and> js_includes
            (''Request failed: '' @ decimal (status response) @ '' '' @ statusText response)
            (decimal (status response))
       \<and> snd (DocuMentorAPI_ask (Resolves response)) =
            Inl (Error (''API error: '' @ decimal (status response)))
       \<and> js_includes (''API error: '' @ decimal (status response)) (decimal (status response))"
proof -
  have "js_includes (''API error: '' @ decimal (status response) @ [])
          (decimal (status response))"
    by (rule js_includes_middle)
  then show ?thesis
    using assms failure_message_fallback [of response toStr]
    by (simp add: apiRequest_result_failure DocuMentorAPI_ask_failure
        failure_message_detail js_includes_middle del: append.simps)
qed

theorem non_2xx_error_message_witness:
  "apiRequest_result plain
     (Resolves \<lparr>status = 404, statusText = ''Not Found'',
        json_any = Inr (JObject [(''detail'', JString ''No such conversation'')]),
        json_as = Inr ()\<rparr>) =
     Inl (DocuMentorApiError ''No such conversation'' 404 ''Not Found'')
   \<and> apiRequest_result plain
       (Resolves \<lparr>status = 404, statusText = ''Not Found'',
          json_any = Inl (SyntaxError ''Unexpected token''), json_as = Inr ()\<rparr>) =
       Inl (DocuMentorApiError ''Request failed: 404 Not Found'' 404 ''Not Found'')"
proof -
  let ?a = "\<lparr>status = 404, statusText = ''Not Found'',
        json_any = Inr (JObject [(''detail'', JString ''No such conversation'')]),
        json_as = Inr ()\<rparr>"
  let ?b = "\<lparr>status = 404, statusText = ''Not Found'',
          json_any = Inl (SyntaxError ''Unexpected token''), json_as = Inr ()\<rparr>"
  have a: "\<not> ok ?a" and b: "\<not> ok ?b" by (simp_all add: ok_def)
  have "failure_message plain ?a = ''No such conversation''"
    using non_2xx_error_message [OF a, of plain] by simp
  moreover have "failure_message plain ?b = ''Request failed: 404 Not Found''"
    using non_2xx_error_message [OF b, of plain] by (simp add: decimal_404)
  ultimately show ?thesis
    using non_2xx_error_message [OF a, of plain] non_2xx_error_message [OF b, of plain]
    by simp
qed

text \<open>A 500 reply whose body carries \<open>detail = "boom"\<close>, through \<open>DocuMentorAPI.ask\<close>.\<close>

theorem ask_ignores_detail_counterexample:
  "snd (DocuMentorAPI_ask
          (Resolves \<lparr>status = 500, statusText = ''Internal Server Error'',
             json_any = Inr (JObject [(''detail'', JString ''boom'')]),
             json_as = Inr ()\<rparr>)) = Inl (Error ''API error: 500'')
   \<and> message (Error ''API error: 500'') \<noteq> ''boom''"
  by (simp add: DocuMentorAPI_ask_def ok_def decimal_500)

section \<open>The message list\<close>

text \<open>
  C4. A text that is empty or made of whitespace code points only has an empty \<open>trim\<close>,
  and submitting it changes nothing: the first layout's \<open>handleSendMessage\<close> returns at its
  guard, and the text box (\<open>ChatInput\<close>, alone or as \<open>ChatInterface\<close> and \<open>WelcomeScreen\<close>
  mount it) never calls the handler it was given, whichever that is. So through the second
  layout's handler, which has no guard of its own, no message is added and no request is
  sent either.
\<close>

theorem blank_input_sends_nothing:
  assumes "set xs \<subseteq> set whitespace"
  shows "trim (concat xs) = []
       \<and> handleSendMessage ar fetch clk (concat xs) st = st
       \<and> ChatInput_handleSubmit (concat xs) disabled onSubmit s = s
       \<and> ChatInterface_handleSubmit loading onSendMessage (concat xs) (inputValue, s) =
           (inputValue, s)
       \<and> ChatInterface_submit loading onSendMessage (concat xs, s) = (concat xs, s)
       \<and> WelcomeScreen_submit onSendMessage (concat xs, s) = (concat xs, s)
       \<and> messages' (snd (WelcomeScreen_submit (handleSendMessage' ar' toStr fetch' clk)
                            (concat xs, st'))) = messages' st'
       \<and> requests' (snd (WelcomeScreen_submit (handleSendMessage' ar' toStr fetch' clk)
                            (concat xs, st'))) = requests' st'"
  using trim_whitespace_only [OF assms]
  by (simp add: handleSendMessage_def ChatInput_handleSubmit_def ChatInterface_submit_def
      WelcomeScreen_submit_def ChatInterface_handleSubmit_def)

theorem blank_input_sends_nothing_witness:
  "handleSendMessage double (always (Rejects ''Failed to fetch'')) clock_reading
       [CHR 0x20, CHR 0x09, CHR 0xC2, CHR 0xA0] (initial :: (unit, rat) layout) = initial
   \<and> messages' (snd (WelcomeScreen_submit
         (handleSendMessage' double plain (always (Rejects ''Failed to fetch'')) clock_reading)
         ([CHR 0x20, CHR 0x09, CHR 0xC2, CHR 0xA0], initial'))) = []
   \<and> requests' (snd (WelcomeScreen_submit
         (handleSendMessage' double plain (always (Rejects ''Failed to fetch'')) clock_reading)
         ([CHR 0x20, CHR 0x09, CHR 0xC2, CHR 0xA0], initial'))) = []"
proof -
  have 1: "set [[CHR 0x20], [CHR 0x09], [CHR 0xC2, CHR 0xA0]] \<subseteq> set whitespace"
    by (simp add: whitespace_def)
  show ?thesis
    using blank_input_sends_nothing
      [OF 1,
       where ar = double and ar' = double
         and fetch = "always (Rejects ''Failed to fetch'')" and clk = clock_reading
         and st = "initial :: (unit, rat) layout" and toStr = plain
         and fetch' = "always (Rejects ''Failed to fetch'')" and st' = initial'
         and disabled = False and loading = False and s = initial' and inputValue = "[]"
         and onSubmit = "handleSendMessage' double plain (always (Rejects ''Failed to fetch'')) clock_reading"
         and onSendMessage = "handleSendMessage' double plain (always (Rejects ''Failed to fetch'')) clock_reading"]
    by (simp add: initial'_def)
qed

text \<open>
  C5, as amended. After a successful \<open>/ask\<close> call the handler has added the user's message
  and the assistant's. In the first layout the assistant message carries the response's
  \<open>answer\<close>, \<open>sources\<close>, \<open>confidence\<close> and \<open>response_time\<close> unchanged. In the second layout
  it carries the response's \<open>answer\<close> and \<open>sources\<close>, the confidence as a percentage,
  \<open>Math.round(confidence * 100)\<close> as the runtime's Number arithmetic computes it, and as
  \<open>responseTime\<close> the time the client measured around the call,
  \<open>(endTime - startTime) / 1000\<close> in the same arithmetic, not the response's
  \<open>response_time\<close>.
\<close>

theorem assistant_message_from_response:
  assumes "trim msg \<noteq> []" and "\<not> isLoading st"
    and "snd (DocuMentorAPI_ask (fetch (ask_request msg (selectedSource st)))) = Inr response"
    and "api_ask toStr fetch' (AskRequest_of msg' st') = Inr response'"
  shows "messages (handleSendMessage ar fetch clk msg st) =
         messages st @
           [\<lparr>msg_id = ''msg-'' @ int_text (now_user clk), content = msg, role = User,
             timestamp = date_user clk, m_sources = None, m_confidence = None,
             responseTime = None\<rparr>,
            \<lparr>msg_id = ''msg-'' @ int_text (now_reply clk + 1), content = answer response,
             role = Assistant, timestamp = date_reply clk,
             m_sources = Some (sources response),
             m_confidence = Some (confidence response),
             responseTime = Some (response_time response)\<rparr>]
       \<and> messages' (handleSendMessage' ar' toStr fetch' clk' msg' st') =
         messages' st' @
           [\<lparr>msg_id = ''user-'' @ int_text (now_user clk'), content = msg', role = User,
             timestamp = date_user clk', m_sources = None, m_confidence = None,
             responseTime = None\<rparr>,
            \<lparr>msg_id = ''assistant-'' @ int_text (now_reply clk'), content = answer response',
             role = Assistant, timestamp = date_reply clk',
             m_sources = Some (sources response'),
             m_confidence =
               Some (Math_round ar' (js_mul ar' (confidence response') (Number ar' 100))),
             responseTime =
               Some (js_div ar'
                       (js_sub ar' (Number ar' (endTime clk')) (Number ar' (startTime clk')))
                       (Number ar' 1000))\<rparr>]"
  using assms by (simp add: handleSendMessage_success handleSendMessage'_success)

text \<open>A reply with confidence 0.285 and response time 2.5, in binary64: the first layout
  keeps 2.5, the second shows 28 per cent (the product is 28.499999999999996).\<close>

theorem assistant_message_from_response_witness:
  "map responseTime (messages (handleSendMessage double
       (always (Resolves \<lparr>status = 200, statusText = ''OK'', json_any = Inr JNull,
          json_as = Inr \<lparr>answer = ''Use a chain.'', sources = [()], response_time = 5 / 2,
                       confidence = binary64 (57 / 200)\<rparr>\<rparr>))
       clock_reading ''hello'' initial)) = [None, Some (5 / 2)]
   \<and> map m_confidence (messages' (handleSendMessage' double plain
       (always (Resolves \<lparr>status = 200, statusText = ''OK'', json_any = Inr JNull,
          json_as = Inr \<lparr>answer = ''Use a chain.'', sources = [''LangChain''],
                       response_time = 5 / 2, confidence = binary64 (57 / 200),
                       conversation_id = ''c1''\<rparr>\<rparr>))
       clock_reading ''hello'' initial')) = [None, Some 28]"
proof -
  let ?r = "\<lparr>status = 200, statusText = ''OK'', json_any = Inr JNull,
          json_as = Inr \<lparr>answer = ''Use a chain.'', sources = [()], response_time = 5 / 2,
                       confidence = binary64 (57 / 200)\<rparr>\<rparr>"
  let ?r' = "\<lparr>status = 200, statusText = ''OK'', json_any = Inr JNull,
          json_as = Inr \<lparr>answer = ''Use a chain.'', sources = [''LangChain''],
                       response_time = 5 / 2, confidence = binary64 (57 / 200),
                       conversation_id = ''c1''\<rparr>\<rparr>"
  have 1: "trim ''hello'' \<noteq> []" by (simp add: trim_hello)
  have 2: "\<not> isLoading (initial :: (unit, rat) layout)" by (simp add: initial_def)
  have 3: "snd (DocuMentorAPI_ask (always (Resolves ?r)
             (ask_request ''hello'' (selectedSource (initial :: (unit, rat) layout))))) =
           Inr \<lparr>answer = ''Use a chain.'', sources = [()], response_time = 5 / 2,
                 confidence = binary64 (57 / 200)\<rparr>"
    by (simp add: DocuMentorAPI_ask_def always_def ok_def)
  have 4: "api_ask plain (always (Resolves ?r')) (AskRequest_of ''hello'' (initial' :: rat layout')) =
           Inr \<lparr>answer = ''Use a chain.'', sources = [''LangChain''],
                       response_time = 5 / 2, confidence = binary64 (57 / 200),
                       conversation_id = ''c1''\<rparr>"
    by (simp add: api_ask_always ok_def)
  show ?thesis
    using assistant_message_from_response
      [where msg = "''hello''" and st = "initial :: (unit, rat) layout"
         and fetch = "always (Resolves ?r)" and toStr = plain
         and fetch' = "always (Resolves ?r')" and msg' = "''hello''"
         and st' = "initial' :: rat layout'"
         and clk = clock_reading and clk' = clock_reading and ar = double and ar' = double
         and response = "\<lparr>answer = ''Use a chain.'', sources = [()], response_time = 5 / 2,
                 confidence = binary64 (57 / 200)\<rparr>"
         and response' = "\<lparr>answer = ''Use a chain.'', sources = [''LangChain''],
                       response_time = 5 / 2, confidence = binary64 (57 / 200),
                       conversation_id = ''c1''\<rparr>", OF 1 2 3 4]
    by (simp add: initial_def initial'_def double_percent)
qed

text \<open>The second layout, a response that reports 2.5 seconds and a call the client timed at
  3 seconds (from 1001 to 4001 milliseconds): the message shows 3.\<close>

theorem client_measured_response_time_counterexample:
  "map responseTime (messages' (handleSendMessage' double plain
       (always (Resolves \<lparr>status = 200, statusText = ''OK'', json_any = Inr JNull,
          json_as = Inr \<lparr>answer = ''Use a chain.'', sources = [''LangChain''],
                       response_time = 5 / 2, confidence = binary64 (57 / 200),
                       conversation_id = ''c1''\<rparr>\<rparr>))
       \<lparr>now_user = 1000, date_user = 1000, startTime = 1001, endTime = 4001,
        now_reply = 4002, date_reply = 4002\<rparr>
       ''hello'' initial')) = [None, Some 3]
   \<and> Some (3 :: rat) \<noteq> Some (5 / 2)"
  by (simp add: handleSendMessage'_def Let_def api_ask_always ok_def initial'_def
      double_elapsed)

text \<open>
  C6. \<open>handleClearChat\<close> empties the message list and sends nothing; the selected source,
  the theme, the sidebar, the command palette, the loading flag and the console are as
  they were (a toast is shown).
\<close>

theorem clear_chat_frame:
  "messages (handleClearChat st) = []
   \<and> requests (handleClearChat st) = requests st
   \<and> selectedSource (handleClearChat st) = selectedSource st
   \<and> isDarkMode (handleClearChat st) = isDarkMode st
   \<and> isSidebarOpen (handleClearChat st) = isSidebarOpen st
   \<and> isCommandPaletteOpen (handleClearChat st) = isCommandPaletteOpen st
   \<and> isLoading (handleClearChat st) = isLoading st
   \<and> console (handleClearChat st) = console st"
  by (simp add: handleClearChat_def)

section \<open>Failures and requests\<close>

text \<open>
  C7. A transport failure, in which no response was received, is to be reported as a
  connectivity error that can be told from an HTTP-level failure. \<open>apiRequest\<close> does so when
  the TypeError's message contains \<open>fetch\<close>. For the message \<open>Load failed\<close> it does not: the
  error thrown is the generic one, with status 500 and status text \<open>Unknown Error\<close>, and it
  is the very error thrown for a 500 reply whose status text is \<open>Unknown Error\<close> and whose
  \<open>detail\<close> is the generic sentence.
\<close>

theorem unrecognised_transport_failure:
  "apiRequest_result plain (Rejects ''Load failed'') =
     (Inl (DocuMentorApiError ''An unexpected error occurred. Please try again.'' 500
             ''Unknown Error'') :: js_error + unit)
   \<and> apiRequest_result plain (Rejects ''Load failed'') =
     apiRequest_result plain
       (Resolves \<lparr>status = 500, statusText = ''Unknown Error'',
          json_any = Inr (JObject
            [(''detail'', JString ''An unexpected error occurred. Please try again.'')]),
          json_as = Inr ()\<rparr>)"
  by (simp add: apiRequest_result_def apiRequest_catch_def ok_def failure_message_def
      startsWith_def)

text \<open>
  C8, as amended. The request \<open>DocuMentorAPI.ask\<close> (services/api.ts) sends to POST
  \<open>/ask\<close> has the body \<open>{question, source_filter?, k, temperature, max_tokens}\<close>, with
  \<open>k = 5\<close>, \<open>temperature = 0.1\<close>, \<open>max_tokens = 1024\<close> and \<open>source_filter\<close> present exactly
  when a filter is given. The request \<open>api.ask\<close> (lib/api) sends is its argument as it is:
  \<open>{question, source?, conversation_id?}\<close>.
\<close>

theorem ask_request_shape:
  "url (ask_request question sourceFilter) = ''http://localhost:8000/ask''
   \<and> http_method (ask_request question sourceFilter) = ''POST''
   \<and> body_field (ask_request question sourceFilter) ''question'' = Some (JString question)
   \<and> body_field (ask_request question sourceFilter) ''source_filter'' =
       map_option JString sourceFilter
   \<and> body_field (ask_request question sourceFilter) ''k'' = Some (JNumber 5)
   \<and> body_field (ask_request question sourceFilter) ''temperature'' = Some (JNumber (1 / 10))
   \<and> body_field (ask_request question sourceFilter) ''max_tokens'' = Some (JNumber 1024)
   \<and> {name. body_field (ask_request question sourceFilter) name \<noteq> None} =
       {''question'', ''k'', ''temperature'', ''max_tokens''} \<union>
       (case sourceFilter of None \<Rightarrow> {} | Some f \<Rightarrow> {''source_filter''})
   \<and> {name. body_field (apiRequest_config ''/ask''
               (api_ask_options (AskRequest question source conversation))) name \<noteq> None} =
       {''question''} \<union> (case source of None \<Rightarrow> {} | Some f \<Rightarrow> {''source''}) \<union>
       (case conversation of None \<Rightarrow> {} | Some c \<Rightarrow> {''conversation_id''})"
proof -
  have 1: "{name. body_field (ask_request question sourceFilter) name \<noteq> None} =
       {''question'', ''k'', ''temperature'', ''max_tokens''} \<union>
       (case sourceFilter of None \<Rightarrow> {} | Some f \<Rightarrow> {''source_filter''})"
    by (cases sourceFilter) (auto simp: ask_request_body split: if_splits)
  have 2: "{name. body_field (apiRequest_config ''/ask''
               (api_ask_options (AskRequest question source conversation))) name \<noteq> None} =
       {''question''} \<union> (case source of None \<Rightarrow> {} | Some f \<Rightarrow> {''source''}) \<union>
       (case conversation of None \<Rightarrow> {} | Some c \<Rightarrow> {''conversation_id''})"
    by (cases source; cases conversation)
       (auto simp: api_ask_body simp del: api_ask_options.simps split: if_splits)
  show ?thesis
    using 1 2 by (simp add: ask_request_body) (simp add: ask_request_def API_BASE_URL_def)
qed

text \<open>The request of \<open>api.ask({question: "hi"})\<close>: a POST to \<open>/ask\<close> without \<open>k\<close>.\<close>

theorem api_ask_body_counterexample:
  "url (apiRequest_config ''/ask'' (api_ask_options (AskRequest ''hi'' None None))) =
     ''http://localhost:8000/ask''
   \<and> http_method (apiRequest_config ''/ask'' (api_ask_options (AskRequest ''hi'' None None))) =
       ''POST''
   \<and> body (apiRequest_config ''/ask'' (api_ask_options (AskRequest ''hi'' None None))) =
       Some (JObject [(''question'', JString ''hi'')])
   \<and> body_field (apiRequest_config ''/ask'' (api_ask_options (AskRequest ''hi'' None None))) ''k'' =
       None"
  by (simp add: apiRequest_config_def API_BASE_URL_def stringify_object_def body_field_def)

section \<open>The loading flag\<close>

text \<open>
  C9, as amended. A run of \<open>handleSendMessage\<close> that starts with \<open>isLoading\<close> false ends with
  \<open>isLoading\<close> false, whatever the backend does. In the first layout a run that starts with
  \<open>isLoading\<close> true returns at the guard and leaves the state, the flag included, as it
  was. The second layout has no guard: its runs always end with the flag false.
\<close>

theorem loading_reset_after_send:
  "(\<not> isLoading st \<longrightarrow> \<not> isLoading (handleSendMessage ar fetch clk msg st))
   \<and> (isLoading st \<longrightarrow> handleSendMessage ar fetch clk msg st = st)
   \<and> \<not> isLoading' (handleSendMessage' ar' toStr fetch' clk msg st')"
  by (simp add: handleSendMessage_guard handleSendMessage_isLoading handleSendMessage'_isLoading)

theorem loading_reset_after_send_witness:
  "\<not> isLoading (handleSendMessage double (always (Rejects ''Failed to fetch'')) clock_reading
        ''hello'' (initial :: (unit, rat) layout))
   \<and> handleSendMessage double (always (Rejects ''Failed to fetch'')) clock_reading ''hello''
        ((initial :: (unit, rat) layout)\<lparr>isLoading := True\<rparr>) = initial\<lparr>isLoading := True\<rparr>"
  using loading_reset_after_send
      [where st = "initial :: (unit, rat) layout" and ar = double and ar' = double
         and fetch = "always (Rejects ''Failed to fetch'')" and clk = clock_reading
         and msg = "''hello''" and toStr = plain
         and fetch' = "always (Rejects ''Failed to fetch'')" and st' = "initial' :: rat layout'"]
    loading_reset_after_send
      [where st = "(initial :: (unit, rat) layout)\<lparr>isLoading := True\<rparr>" and ar = double
         and ar' = double and fetch = "always (Rejects ''Failed to fetch'')"
         and clk = clock_reading and msg = "''hello''" and toStr = plain
         and fetch' = "always (Rejects ''Failed to fetch'')" and st' = "initial' :: rat layout'"]
  by (simp add: initial_def)

text \<open>The first layout, a send while another is in flight.\<close>

theorem guard_keeps_loading_counterexample:
  "isLoading (handleSendMessage double (always (Rejects ''Failed to fetch''))
      \<lparr>now_user = 0, date_user = 0, startTime = 0, endTime = 0, now_reply = 0, date_reply = 0\<rparr>
      ''hello'' ((initial :: (unit, rat) layout)\<lparr>isLoading := True\<rparr>))"
  by (simp add: handleSendMessage_def)

section \<open>Lines the decoder passes over\<close>

text \<open>
  C10. The callback is called with an event exactly when some line of some read begins
  with \<open>data: \<close> and its remainder parses to that event. A line without the prefix (an
  empty line, a comment, any other field) has no effect at all, neither a call nor a
  report, so the decoder's effects are those of the prefixed lines alone; a prefixed line
  that does not parse gives the report of C2 and no call.
\<close>

theorem callback_only_for_parsable_data_lines:
  "(OnChunk d \<in> set (read_loop parse throws chunks) \<longleftrightarrow>
      (\<exists>chunk \<in> set chunks. \<exists>line \<in> set (js_split (CHR 0x0A) chunk).
         startsWith line ''data: '' \<and> parse (slice line 6) = Some d))
   \<and> (\<not> startsWith line ''data: '' \<longrightarrow> on_line parse throws line = [])
   \<and> (startsWith line ''data: '' \<and> parse (slice line 6) = None \<longrightarrow>
        on_line parse throws line = [ConsoleError])
   \<and> for_lines parse throws (filter (\<lambda>l. startsWith l ''data: '') lines) =
       for_lines parse throws lines"
  by (simp add: OnChunk_read_loop for_lines_filter on_line_def)

theorem callback_only_for_parsable_data_lines_witness:
  \<open>OnChunk (JObject [(''a'', JNumber 1)]) \<in>
     set (read_loop JSON_parse quiet ['': ping\<newline>\<newline>event: x\<newline>data: {"a":1}\<newline>''])
   \<and> on_line JSON_parse quiet '': ping'' = []
   \<and> on_line JSON_parse quiet ''data: {"a"'' = [ConsoleError]
   \<and> for_lines JSON_parse quiet [''data: {"a":1}''] =
       for_lines JSON_parse quiet ['': ping'', [], ''event: x'', ''data: {"a":1}'', []]\<close>
proof -
  have 1: \<open>\<exists>chunk \<in> set ['': ping\<newline>\<newline>event: x\<newline>data: {"a":1}\<newline>''].
      \<exists>line \<in> set (js_split (CHR 0x0A) chunk).
        startsWith line ''data: '' \<and> JSON_parse (slice line 6) = Some (JObject [(''a'', JNumber 1)])\<close>
    by (simp add: startsWith_def slice_def parse_a1)
  have 2: \<open>\<not> startsWith '': ping'' ''data: ''\<close> by (simp add: startsWith_def)
  have 3: \<open>startsWith ''data: {"a"'' ''data: '' \<and> JSON_parse (slice ''data: {"a"'' 6) = None\<close>
    by (simp add: startsWith_def slice_def parse_a_cut)
  have 4: \<open>filter (\<lambda>l. startsWith l ''data: '') ['': ping'', [], ''event: x'', ''data: {"a":1}'', []] =
      [''data: {"a":1}'']\<close>
    by (simp add: startsWith_def)
  from callback_only_for_parsable_data_lines
    [of \<open>JObject [(''a'', JNumber 1)]\<close> JSON_parse quiet
        \<open>['': ping\<newline>\<newline>event: x\<newline>data: {"a":1}\<newline>'']\<close> \<open>'': ping''\<close>
        \<open>['': ping'', [], ''event: x'', ''data: {"a":1}'', []]\<close>]
    callback_only_for_parsable_data_lines
    [of \<open>JObject [(''a'', JNumber 1)]\<close> JSON_parse quiet
        \<open>['': ping\<newline>\<newline>event: x\<newline>data: {"a":1}\<newline>'']\<close> \<open>''data: {"a"''\<close>
        \<open>['': ping'', [], ''event: x'', ''data: {"a":1}'', []]\<close>]
  show ?thesis
    using 1 2 3 4 by metis
qed

end
